theory Spec2Isabelle
  imports Main
begin

section \<open>The session state of App.tsx\<close>

text \<open>
  The component \<open>App\<close> keeps one account (tier, points, admin flag, personalization map,
  basket) and a chat transcript in React state, and persists them through Supabase calls.
  The embedding is by explicit state passing:
  \<^item> the React state variables are the fields of \<open>app_state\<close>, together with what the
    code prints (\<open>console\<close>) and shows (\<open>alerts\<close>);
  \<^item> every handler takes the responses of the remote calls it awaits as arguments and
    returns its return value, the remote requests it issued in order, and the new state;
  \<^item> a state setter called with a value overwrites the field, a setter called with an
    updater function (\<open>prev => ...\<close>) is applied to the state at that moment; the
    handlers here are run to completion one at a time, so the value captured by the
    closure (\<open>currentUser\<close>) is the state at the call;
  \<^item> the \<open>number\<close> fields and arguments that count points are doubles with an integer
    value, an infinity or NaN, and their arithmetic rounds as IEEE-754 does;
  \<^item> a string is a list of 8-bit characters; a JSON object with string values is a map,
    a missing key and \<open>undefined\<close> being \<open>None\<close>.
\<close>

subsection \<open>JavaScript numbers\<close>

text \<open>
  A \<open>number\<close> is an IEEE-754 double. The numbers of this program are counts of points:
  the model has the doubles with an integer value (\<open>Fin n\<close>, where \<open>n\<close> is a
  representable integer), the two infinities an overflow produces, and NaN; the two zeros
  are one value. Every integer of magnitude below \<open>2 ^ 53\<close> is representable; from there
  on the representable integers are \<open>2\<close> apart, then \<open>4\<close>, and so on: \<open>ulp m\<close> is that
  spacing at the magnitude \<open>m\<close>.
\<close>

datatype number = Fin int | PosInfinity | NegInfinity | NaN

function ulp :: "nat \<Rightarrow> nat" where
  "ulp m = (if m < 2 ^ 53 then 1 else 2 * ulp (m div 2))"
  by pat_completeness auto
termination
  by (relation "measure (\<lambda>m. m)") auto

declare ulp.simps [simp del]

text \<open>The multiple of \<open>u\<close> nearest to \<open>x\<close>; of two equally near, the even multiple.\<close>

definition nearest_even :: "int \<Rightarrow> int \<Rightarrow> int" where
  "nearest_even u x =
     (let q = x div u; r = x mod u
      in if 2 * r < u then q * u
         else if u < 2 * r then (q + 1) * u
         else if even q then q * u else (q + 1) * u)"

text \<open>
  Rounding the exact integer result of an operation to a double (round to nearest, ties
  to even); a result that rounds to \<open>2 ^ 1024\<close> or beyond overflows.
\<close>

definition fl :: "int \<Rightarrow> number" where
  "fl x =
     (let r = nearest_even (int (ulp (nat \<bar>x\<bar>))) x
      in if 2 ^ 1024 \<le> r then PosInfinity
         else if r \<le> - (2 ^ 1024) then NegInfinity
         else Fin r)"

text \<open>\<open>x + y\<close>.\<close>

fun js_add :: "number \<Rightarrow> number \<Rightarrow> number" where
  "js_add (Fin a) (Fin b) = fl (a + b)"
| "js_add NaN y = NaN"
| "js_add x NaN = NaN"
| "js_add PosInfinity NegInfinity = NaN"
| "js_add NegInfinity PosInfinity = NaN"
| "js_add PosInfinity y = PosInfinity"
| "js_add NegInfinity y = NegInfinity"
| "js_add x PosInfinity = PosInfinity"
| "js_add x NegInfinity = NegInfinity"

fun js_neg :: "number \<Rightarrow> number" where
  "js_neg (Fin a) = Fin (- a)"
| "js_neg PosInfinity = NegInfinity"
| "js_neg NegInfinity = PosInfinity"
| "js_neg NaN = NaN"

text \<open>\<open>x - y\<close>.\<close>

definition js_sub :: "number \<Rightarrow> number \<Rightarrow> number" where
  "js_sub x y = js_add x (js_neg y)"

text \<open>\<open>x < y\<close>: false as soon as one side is NaN.\<close>

fun js_lt :: "number \<Rightarrow> number \<Rightarrow> bool" where
  "js_lt (Fin a) (Fin b) = (a < b)"
| "js_lt NaN y = False"
| "js_lt x NaN = False"
| "js_lt x NegInfinity = False"
| "js_lt PosInfinity y = False"
| "js_lt NegInfinity y = True"
| "js_lt x PosInfinity = True"

text \<open>\<open>x <= y\<close>: false as soon as one side is NaN.\<close>

fun js_le :: "number \<Rightarrow> number \<Rightarrow> bool" where
  "js_le (Fin a) (Fin b) = (a \<le> b)"
| "js_le NaN y = False"
| "js_le x NaN = False"
| "js_le NegInfinity y = True"
| "js_le x PosInfinity = True"
| "js_le x NegInfinity = False"
| "js_le PosInfinity y = False"

text \<open>\<open>Number.isSafeInteger\<close>: the integers of magnitude at most \<open>2 ^ 53 - 1\<close>.\<close>

definition isSafeInteger :: "int \<Rightarrow> bool" where
  "isSafeInteger x = (\<bar>x\<bar> \<le> 9007199254740991)"

subsection \<open>The data of the session\<close>

datatype SubscriptionTier = Free | Basic | Standard | Premium | Admin

datatype Role = user | model

record ChatMessage =
  msg_id :: "string option"
  role :: Role
  content :: string
  created_at :: "string option"
  user_id :: "string option"

type_synonym AiProfileInfo = "string \<rightharpoonup> string"

text \<open>\<open>CurrentUser extends UserData\<close>; the field \<open>id\<close> is \<open>uid\<close> here.\<close>

record CurrentUser =
  tier :: SubscriptionTier
  points :: number
  is_admin :: bool
  ai_profile_info :: "AiProfileInfo option"
  basket_items :: "string list"
  uid :: string
  email :: "string option"
  language :: string

text \<open>A row of the table \<open>profiles\<close>, as the remote calls send and return it.\<close>

record profile_row =
  row_id :: string
  row_tier :: SubscriptionTier
  row_points :: number
  row_is_admin :: bool
  row_ai_profile_info :: "AiProfileInfo option"
  row_basket_items :: "string list"

text \<open>The user object of the identity provider.\<close>

record SupabaseUser =
  su_id :: string
  su_email :: "string option"

datatype PostgrestError = PostgrestError (err_code: string) (err_message: string)

text \<open>The \<open>{ data, error }\<close> pair every awaited remote call resolves to.\<close>

record 'a response =
  data :: "'a option"
  error :: "PostgrestError option"

text \<open>The argument of \<open>.update(...)\<close>.\<close>

datatype patch =
    Points number
  | TierPoints SubscriptionTier number
  | AiInfo AiProfileInfo
  | BasketItems "string list"

text \<open>
  The calls on \<open>supabase.from('profiles')\<close>: \<open>Select i\<close> is
  \<open>.select('*').eq('id', i).single()\<close>, \<open>Update i p sel\<close> is \<open>.update(p).eq('id', i)\<close>,
  followed by \<open>.select().single()\<close> when \<open>sel\<close> holds, \<open>Insert r\<close> is
  \<open>.insert([r]).select().single()\<close>.
\<close>

datatype request =
    Select string
  | Update string patch bool
  | Insert profile_row

datatype js_error = TypeError

record app_state =
  currentUser :: "CurrentUser option"
  authChecked :: bool
  isPricingModalOpen :: bool
  isCheckoutOpen :: bool
  chatHistory :: "ChatMessage list"
  showCookieConsent :: bool
  console :: "string list"
  alerts :: "string list"

record 'r outcome =
  returned :: 'r
  requests :: "request list"
  state :: app_state

definition console_error :: "string \<Rightarrow> app_state \<Rightarrow> app_state" where
  "console_error label st = st\<lparr>console := console st @ [label]\<rparr>"

subsection \<open>JavaScript truthiness of optional strings\<close>

text \<open>\<open>!s\<close> holds for \<open>undefined\<close> and for the empty string.\<close>

definition falsy :: "string option \<Rightarrow> bool" where
  "falsy s = (case s of None \<Rightarrow> True | Some v \<Rightarrow> v = [])"

text \<open>\<open>s || d\<close> for a string default \<open>d\<close>.\<close>

definition or_else :: "string option \<Rightarrow> string \<Rightarrow> string" where
  "or_else s d = (case s of None \<Rightarrow> d | Some v \<Rightarrow> if v = [] then d else v)"

text \<open>\<open>o || {}\<close> and the spread \<open>...o\<close> of a possibly null object.\<close>

definition or_empty :: "AiProfileInfo option \<Rightarrow> AiProfileInfo" where
  "or_empty m = (case m of None \<Rightarrow> Map.empty | Some i \<Rightarrow> i)"

subsection \<open>The points ledger: deductPoints and handleCheckoutSuccess\<close>

text \<open>The updater \<open>prev => prev ? { ...prev, points: prev.points + amount } : null\<close>.\<close>

definition refund :: "number \<Rightarrow> CurrentUser option \<Rightarrow> CurrentUser option" where
  "refund amount prev =
     (case prev of None \<Rightarrow> None
      | Some p \<Rightarrow> Some (p\<lparr>points := js_add (points p) amount\<rparr>))"

definition deductPoints ::
  "number \<Rightarrow> unit response \<Rightarrow> app_state \<Rightarrow> bool outcome" where
  "deductPoints amount resp st =
     (case currentUser st of
        None \<Rightarrow> \<lparr>returned = True, requests = [], state = st\<rparr>
      | Some cu \<Rightarrow>
          if is_admin cu then \<lparr>returned = True, requests = [], state = st\<rparr>
          else if js_lt (points cu) amount then
            \<lparr>returned = False, requests = [],
             state = st\<lparr>alerts := alerts st @
                 [''You don't have enough points for this action. Please upgrade your plan.''],
               isPricingModalOpen := True\<rparr>\<rparr>
          else
            let newPoints = js_sub (points cu) amount;
                st1 = st\<lparr>currentUser := Some (cu\<lparr>points := newPoints\<rparr>)\<rparr>;
                req = Update (uid cu) (Points newPoints) False
            in (case error resp of
                  Some e \<Rightarrow>
                    let st2 = console_error ''Error deducting points: '' st1
                    in \<lparr>returned = False, requests = [req],
                        state = st2\<lparr>currentUser := refund amount (currentUser st2)\<rparr>\<rparr>
                | None \<Rightarrow> \<lparr>returned = True, requests = [req], state = st1\<rparr>))"

text \<open>
  \<open>handleCheckoutSuccess\<close>. The updater
  \<open>prev => prev ? { ...prev, tier: data.tier, points: data.points } : null\<close> reads
  \<open>data\<close>, which raises a TypeError when \<open>data\<close> is null; the updater runs outside the
  handler's \<open>try\<close>, so that error is not caught there.
\<close>

definition credit_confirmed ::
  "profile_row option \<Rightarrow> CurrentUser option \<Rightarrow> js_error + CurrentUser option" where
  "credit_confirmed d prev =
     (case prev of None \<Rightarrow> Inr None
      | Some p \<Rightarrow>
          (case d of None \<Rightarrow> Inl TypeError
           | Some row \<Rightarrow> Inr (Some (p\<lparr>tier := row_tier row, points := row_points row\<rparr>))))"

definition handleCheckoutSuccess ::
  "SubscriptionTier \<Rightarrow> number \<Rightarrow> profile_row response \<Rightarrow> app_state
     \<Rightarrow> js_error + unit outcome" where
  "handleCheckoutSuccess t pts resp st =
     (case currentUser st of
        None \<Rightarrow> Inr \<lparr>returned = (), requests = [], state = st\<rparr>
      | Some cu \<Rightarrow>
          let newTotalPoints = js_add (points cu) pts;
              req = Update (uid cu) (TierPoints t newTotalPoints) True
          in (case error resp of
                Some e \<Rightarrow>
                  Inr \<lparr>returned = (), requests = [req],
                       state = console_error ''Error updating subscription:'' st\<rparr>
              | None \<Rightarrow>
                  (case credit_confirmed (data resp) (currentUser st) of
                     Inl x \<Rightarrow> Inl x
                   | Inr cu' \<Rightarrow>
                       Inr \<lparr>returned = (), requests = [req],
                            state = st\<lparr>currentUser := cu', isCheckoutOpen := False\<rparr>\<rparr>)))"

subsection \<open>The basket\<close>

text \<open>The updater \<open>prev => prev ? { ...prev, basket_items: updatedBasket } : null\<close>.\<close>

definition set_basket :: "string list \<Rightarrow> CurrentUser option \<Rightarrow> CurrentUser option" where
  "set_basket updatedBasket prev =
     (case prev of None \<Rightarrow> None
      | Some p \<Rightarrow> Some (p\<lparr>basket_items := updatedBasket\<rparr>))"

definition addToBasket ::
  "string \<Rightarrow> unit response \<Rightarrow> app_state \<Rightarrow> unit outcome" where
  "addToBasket c resp st =
     (case currentUser st of
        None \<Rightarrow> \<lparr>returned = (), requests = [], state = st\<rparr>
      | Some cu \<Rightarrow>
          if c \<in> set (basket_items cu) then \<lparr>returned = (), requests = [], state = st\<rparr>
          else
            let updatedBasket = basket_items cu @ [c];
                req = Update (uid cu) (BasketItems updatedBasket) False
            in (case error resp of
                  Some e \<Rightarrow>
                    \<lparr>returned = (), requests = [req],
                     state = console_error ''Error adding to basket:'' st\<rparr>
                | None \<Rightarrow>
                    \<lparr>returned = (), requests = [req],
                     state = st\<lparr>currentUser := set_basket updatedBasket (currentUser st)\<rparr>\<rparr>))"

text \<open>
  \<open>basket_items.filter((_, i) => i !== index)\<close>, for any number \<open>index\<close>: the
  positions \<open>i\<close> are the integers from \<open>0\<close>.
\<close>

definition remove_at :: "number \<Rightarrow> string list \<Rightarrow> string list" where
  "remove_at index xs =
     map snd (filter (\<lambda>(i, x). Fin (int i) \<noteq> index) (enumerate 0 xs))"

definition removeFromBasket ::
  "number \<Rightarrow> unit response \<Rightarrow> app_state \<Rightarrow> unit outcome" where
  "removeFromBasket index resp st =
     (case currentUser st of
        None \<Rightarrow> \<lparr>returned = (), requests = [], state = st\<rparr>
      | Some cu \<Rightarrow>
          let updatedBasket = remove_at index (basket_items cu);
              req = Update (uid cu) (BasketItems updatedBasket) False
          in (case error resp of
                Some e \<Rightarrow>
                  \<lparr>returned = (), requests = [req],
                   state = console_error ''Error removing from basket:'' st\<rparr>
              | None \<Rightarrow>
                  \<lparr>returned = (), requests = [req],
                   state = st\<lparr>currentUser := set_basket updatedBasket (currentUser st)\<rparr>\<rparr>))"

subsection \<open>Personalization and language\<close>

text \<open>
  The updater
  \<open>prev => prev ? { ...prev, ai_profile_info: data.ai_profile_info,
     language: data.ai_profile_info.language || 'English' } : null\<close>.
  Reading \<open>.language\<close> of a null \<open>ai_profile_info\<close> raises a TypeError.
\<close>

definition set_confirmed_info ::
  "profile_row \<Rightarrow> CurrentUser option \<Rightarrow> js_error + CurrentUser option" where
  "set_confirmed_info d prev =
     (case prev of None \<Rightarrow> Inr None
      | Some p \<Rightarrow>
          (case row_ai_profile_info d of None \<Rightarrow> Inl TypeError
           | Some i \<Rightarrow>
               Inr (Some (p\<lparr>ai_profile_info := Some i,
                            language := or_else (i ''language'') ''English''\<rparr>))))"

text \<open>What both handlers do once the update has been awaited.\<close>

definition confirm_info ::
  "string \<Rightarrow> request \<Rightarrow> profile_row response \<Rightarrow> app_state \<Rightarrow> js_error + unit outcome" where
  "confirm_info label req resp st =
     (case error resp of
        Some e \<Rightarrow> Inr \<lparr>returned = (), requests = [req], state = console_error label st\<rparr>
      | None \<Rightarrow>
          (case data resp of
             None \<Rightarrow> Inr \<lparr>returned = (), requests = [req], state = st\<rparr>
           | Some d \<Rightarrow>
               (case set_confirmed_info d (currentUser st) of
                  Inl x \<Rightarrow> Inl x
                | Inr cu' \<Rightarrow>
                    Inr \<lparr>returned = (), requests = [req], state = st\<lparr>currentUser := cu'\<rparr>\<rparr>)))"

definition updateAiProfileInfo ::
  "AiProfileInfo \<Rightarrow> profile_row response \<Rightarrow> app_state \<Rightarrow> js_error + unit outcome" where
  "updateAiProfileInfo updatedProfile resp st =
     (case currentUser st of
        None \<Rightarrow> Inr \<lparr>returned = (), requests = [], state = st\<rparr>
      | Some cu \<Rightarrow>
          let newProfileInfo = or_empty (ai_profile_info cu) ++ updatedProfile
          in confirm_info ''Error updating AI profile:''
               (Update (uid cu) (AiInfo newProfileInfo) True) resp st)"

definition updateLanguage ::
  "string \<Rightarrow> profile_row response \<Rightarrow> app_state \<Rightarrow> js_error + unit outcome" where
  "updateLanguage newLanguage resp st =
     (case currentUser st of
        None \<Rightarrow> Inr \<lparr>returned = (), requests = [], state = st\<rparr>
      | Some cu \<Rightarrow>
          let updatedProfileInfo = (or_empty (ai_profile_info cu))(''language'' \<mapsto> newLanguage)
          in confirm_info ''Error updating language:''
               (Update (uid cu) (AiInfo updatedProfileInfo) True) resp st)"

subsection \<open>The realtime feed of the transcript\<close>

datatype event_type = INSERT | UPDATE | DELETE

record payload =
  eventType :: event_type
  new :: ChatMessage

text \<open>
  The updater of the INSERT branch: \<open>prev.find(msg => msg.id === newMessage.id)\<close> yields
  the first message with that id, an object and so truthy, or \<open>undefined\<close>.
\<close>

definition insert_message :: "ChatMessage \<Rightarrow> ChatMessage list \<Rightarrow> ChatMessage list" where
  "insert_message newMessage prev =
     (case find (\<lambda>msg. msg_id msg = msg_id newMessage) prev of
        Some found \<Rightarrow> prev
      | None \<Rightarrow> prev @ [newMessage])"

text \<open>The updater of the UPDATE branch.\<close>

definition update_message :: "ChatMessage \<Rightarrow> ChatMessage list \<Rightarrow> ChatMessage list" where
  "update_message updatedMessage prev =
     map (\<lambda>msg. if msg_id msg = msg_id updatedMessage then updatedMessage else msg) prev"

definition handleRealtimeUpdate :: "payload \<Rightarrow> app_state \<Rightarrow> app_state" where
  "handleRealtimeUpdate p st =
     (case eventType p of
        INSERT \<Rightarrow> st\<lparr>chatHistory := insert_message (new p) (chatHistory st)\<rparr>
      | UPDATE \<Rightarrow> st\<lparr>chatHistory := update_message (new p) (chatHistory st)\<rparr>
      | DELETE \<Rightarrow> st)"

text \<open>How many messages of a sequence carry the id \<open>i\<close>.\<close>

definition copies :: "string option \<Rightarrow> ChatMessage list \<Rightarrow> nat" where
  "copies i ms = length (filter (\<lambda>msg. msg_id msg = i) ms)"

subsection \<open>The administrator allow-list\<close>

text \<open>
  \<open>toLowerCase\<close> on 8-bit characters: the letters A to Z (codes 65 to 90) move to a to z,
  every other character stays.
\<close>

definition toLowerChar :: "char \<Rightarrow> char" where
  "toLowerChar c =
     (if 65 \<le> (of_char c :: nat) \<and> (of_char c :: nat) \<le> 90
      then char_of ((of_char c :: nat) + 32) else c)"

definition toLowerCase :: "string \<Rightarrow> string" where
  "toLowerCase s = map toLowerChar s"

text \<open>The literal array, before \<open>.map(email => email.toLowerCase())\<close>.\<close>

definition admin_literals :: "string list" where
  "admin_literals = [''samfolarvic@gmail.com'', ''test@example.dev'', ''super@user.com'']"

definition ADMIN_EMAILS :: "string list" where
  "ADMIN_EMAILS = map toLowerCase admin_literals"

text \<open>\<open>ADMIN_EMAILS.includes(user.email?.toLowerCase() || '')\<close>.\<close>

definition isAdmin :: "SupabaseUser \<Rightarrow> bool" where
  "isAdmin u = (or_else (map_option toLowerCase (su_email u)) [] \<in> set ADMIN_EMAILS)"

text \<open>
  Matching case-insensitively, as the specification words it, stated without
  \<open>toLowerCase\<close>: two strings of the same length whose characters are equal or are the
  capital and the small form of one letter.
\<close>

definition is_upper :: "char \<Rightarrow> bool" where
  "is_upper c = (65 \<le> (of_char c :: nat) \<and> (of_char c :: nat) \<le> 90)"

definition same_letter :: "char \<Rightarrow> char \<Rightarrow> bool" where
  "same_letter a b =
     (a = b \<or> (is_upper a \<and> (of_char b :: nat) = of_char a + 32)
            \<or> (is_upper b \<and> (of_char a :: nat) = of_char b + 32))"

definition ci_equal :: "string \<Rightarrow> string \<Rightarrow> bool" where
  "ci_equal s t = list_all2 same_letter s t"

definition on_allow_list :: "string option \<Rightarrow> bool" where
  "on_allow_list e =
     (case e of None \<Rightarrow> False | Some v \<Rightarrow> list_ex (ci_equal v) admin_literals)"

subsection \<open>Binding an identity and hydrating its profile\<close>

definition defaultProfileInfo :: AiProfileInfo where
  "defaultProfileInfo =
     [''Name'' \<mapsto> ''Padi'', ''Location'' \<mapsto> ''the cloud'',
      ''Interests'' \<mapsto> ''learning new things and chatting'']"

text \<open>The personalization map of a provisional session and of a new profile.\<close>

definition initialProfileInfo :: AiProfileInfo where
  "initialProfileInfo = defaultProfileInfo(''language'' \<mapsto> ''English'')"

text \<open>The handler passed to \<open>supabase.auth.onAuthStateChange\<close>.\<close>

definition onAuthStateChange :: "SupabaseUser option \<Rightarrow> app_state \<Rightarrow> app_state" where
  "onAuthStateChange session_user st =
     (case session_user of
        Some u \<Rightarrow>
          st\<lparr>currentUser := Some
               (case currentUser st of
                  None \<Rightarrow>
                    \<lparr>tier = Free, points = Fin 0, is_admin = False,
                     ai_profile_info = Some initialProfileInfo, basket_items = [],
                     uid = su_id u, email = su_email u, language = ''English''\<rparr>
                | Some prev \<Rightarrow>
                    prev\<lparr>uid := su_id u, email := su_email u,
                         language := or_else (Some (language prev)) ''English''\<rparr>),
             authChecked := True\<rparr>
      | None \<Rightarrow> st\<lparr>currentUser := None, authChecked := True\<rparr>)"

definition needsUpdate :: "AiProfileInfo \<Rightarrow> bool" where
  "needsUpdate currentProfileInfo =
     (falsy (currentProfileInfo ''Name'') \<or> falsy (currentProfileInfo ''Location'')
      \<or> falsy (currentProfileInfo ''Interests'') \<or> falsy (currentProfileInfo ''language''))"

text \<open>
  \<open>{ ...defaultProfileInfo, ...currentProfileInfo,
      language: currentProfileInfo.language || 'English' }\<close>.
\<close>

definition updatedAiInfo :: "AiProfileInfo \<Rightarrow> AiProfileInfo" where
  "updatedAiInfo currentProfileInfo =
     (defaultProfileInfo ++ currentProfileInfo)
       (''language'' \<mapsto> or_else (currentProfileInfo ''language'') ''English'')"

text \<open>
  \<open>{ ...profile, email: user.email,
      language: profile.ai_profile_info?.language || 'English' }\<close>.
\<close>

definition session_of :: "profile_row \<Rightarrow> SupabaseUser \<Rightarrow> CurrentUser" where
  "session_of profile u =
     \<lparr>tier = row_tier profile, points = row_points profile,
      is_admin = row_is_admin profile, ai_profile_info = row_ai_profile_info profile,
      basket_items = row_basket_items profile, uid = row_id profile,
      email = su_email u,
      language =
        or_else (case row_ai_profile_info profile of None \<Rightarrow> None
                 | Some i \<Rightarrow> i ''language'') ''English''\<rparr>"

definition newUserProfile :: "SupabaseUser \<Rightarrow> profile_row" where
  "newUserProfile u =
     \<lparr>row_id = su_id u,
      row_tier = (if isAdmin u then Admin else Free),
      row_points = Fin 5000,
      row_is_admin = isAdmin u,
      row_ai_profile_info = Some initialProfileInfo,
      row_basket_items = []\<rparr>"

text \<open>
  The body of the \<open>try\<close> block when the select found a row. The personalization the
  session receives is the one of the row the update returned, or the back-filled one
  when it returned none.
\<close>

definition hydrate_found ::
  "SupabaseUser \<Rightarrow> profile_row \<Rightarrow> profile_row response \<Rightarrow> app_state \<Rightarrow> unit outcome" where
  "hydrate_found u profile upd st =
     (let currentProfileInfo = or_empty (row_ai_profile_info profile)
      in if needsUpdate currentProfileInfo then
           let info = updatedAiInfo currentProfileInfo;
               req = Update (su_id u) (AiInfo info) True;
               st1 = (case error upd of
                        Some e \<Rightarrow> console_error ''Error back-filling profile:'' st
                      | None \<Rightarrow> st);
               profile' = (case data upd of
                             Some updatedProfile \<Rightarrow> updatedProfile
                           | None \<Rightarrow> profile\<lparr>row_ai_profile_info := Some info\<rparr>)
           in \<lparr>returned = (), requests = [Select (su_id u), req],
               state = st1\<lparr>currentUser := Some (session_of profile' u)\<rparr>\<rparr>
         else
           \<lparr>returned = (), requests = [Select (su_id u)],
            state = st\<lparr>currentUser := Some (session_of profile u)\<rparr>\<rparr>)"

text \<open>
  The body of the \<open>try\<close> block when the select found no row, with its \<open>catch\<close>:
  \<open>if (insertError) throw insertError\<close> lands in \<open>console.error\<close>.
\<close>

definition hydrate_missing ::
  "SupabaseUser \<Rightarrow> profile_row response \<Rightarrow> app_state \<Rightarrow> unit outcome" where
  "hydrate_missing u ins st =
     (let reqs = [Select (su_id u), Insert (newUserProfile u)]
      in case error ins of
           Some insertError \<Rightarrow>
             \<lparr>returned = (), requests = reqs,
              state = console_error ''Error fetching/hydrating user profile:'' st\<rparr>
         | None \<Rightarrow>
             (case data ins of
                Some newProfile \<Rightarrow>
                  \<lparr>returned = (), requests = reqs,
                   state = st\<lparr>currentUser := Some (session_of newProfile u)\<rparr>\<rparr>
              | None \<Rightarrow> \<lparr>returned = (), requests = reqs, state = st\<rparr>))"

text \<open>The \<open>finally\<close> block; \<open>consent\<close> is \<open>localStorage.getItem('cookieConsent')\<close>.\<close>

definition finally_consent :: "string option \<Rightarrow> unit outcome \<Rightarrow> unit outcome" where
  "finally_consent consent r =
     (if consent \<noteq> Some ''true'' then r\<lparr>state := (state r)\<lparr>showCookieConsent := True\<rparr>\<rparr>
      else r)"

text \<open>
  \<open>fetchAndHydrateProfile\<close>: \<open>auth_user\<close> is what \<open>supabase.auth.getUser()\<close> gave,
  \<open>sel\<close>, \<open>upd\<close> and \<open>ins\<close> are the responses of the select, of the back-fill update
  and of the insert. The error of the select is not read.
\<close>

definition fetchAndHydrateProfile ::
  "SupabaseUser option \<Rightarrow> profile_row response \<Rightarrow> profile_row response
     \<Rightarrow> profile_row response \<Rightarrow> string option \<Rightarrow> app_state \<Rightarrow> unit outcome" where
  "fetchAndHydrateProfile auth_user sel upd ins consent st =
     (case auth_user of
        None \<Rightarrow> \<lparr>returned = (), requests = [], state = st\<rparr>
      | Some u \<Rightarrow>
          finally_consent consent
            (case data sel of
               Some profile \<Rightarrow> hydrate_found u profile upd st
             | None \<Rightarrow> hydrate_missing u ins st))"

text \<open>What the session holds under a personalization key.\<close>

definition personalization :: "app_state \<Rightarrow> string \<Rightarrow> string option" where
  "personalization st k =
     (case currentUser st of None \<Rightarrow> None | Some cu \<Rightarrow> or_empty (ai_profile_info cu) k)"

text \<open>
  The value a present or missing key has after the back-fill:
  the key \<open>language\<close> is \<open>language || 'English'\<close>, every other key keeps its stored value
  and takes the default when it is missing.
\<close>

definition backfilled :: "AiProfileInfo \<Rightarrow> string \<Rightarrow> string option" where
  "backfilled stored k =
     (if k = ''language'' then Some (or_else (stored ''language'') ''English'')
      else case stored k of Some v \<Rightarrow> Some v | None \<Rightarrow> defaultProfileInfo k)"

text \<open>What a request writes under a personalization key.\<close>

fun written :: "string \<Rightarrow> request \<Rightarrow> string option" where
  "written k (Update i (AiInfo m) sel) = m k"
| "written k r = None"

subsection \<open>Concrete sessions and rows\<close>

text \<open>The state before any authentication event: the initial values of \<open>useState\<close>.\<close>

definition initial_state :: app_state where
  "initial_state =
     \<lparr>currentUser = None, authChecked = False, isPricingModalOpen = False,
      isCheckoutOpen = False, chatHistory = [], showCookieConsent = False,
      console = [], alerts = []\<rparr>"

definition ada :: SupabaseUser where
  "ada = \<lparr>su_id = ''u-ada'', su_email = Some ''ada@example.org''\<rparr>"

definition root_user :: SupabaseUser where
  "root_user = \<lparr>su_id = ''u-root'', su_email = Some ''Test@Example.DEV''\<rparr>"

text \<open>The provisional session of \<open>ada\<close>, right after sign-in.\<close>

definition provisional :: app_state where
  "provisional = onAuthStateChange (Some ada) initial_state"

definition ada_row :: profile_row where
  "ada_row =
     \<lparr>row_id = ''u-ada'', row_tier = Basic, row_points = Fin 200, row_is_admin = False,
      row_ai_profile_info = Some initialProfileInfo, row_basket_items = [''tea'']\<rparr>"

definition root_row :: profile_row where
  "root_row = ada_row\<lparr>row_id := ''u-root'', row_tier := Admin, row_is_admin := True\<rparr>"

text \<open>A stored row whose key \<open>language\<close> is present and holds the empty string.\<close>

definition blank_language_row :: profile_row where
  "blank_language_row =
     ada_row\<lparr>row_ai_profile_info := Some (initialProfileInfo(''language'' \<mapsto> []))\<rparr>"

text \<open>A stored row with one key only.\<close>

definition sparse_row :: profile_row where
  "sparse_row = ada_row\<lparr>row_ai_profile_info := Some [''Name'' \<mapsto> ''Ada'']\<rparr>"

text \<open>Hydrated sessions: a member with 200 points and an administrator.\<close>

definition member :: app_state where
  "member = initial_state\<lparr>currentUser := Some (session_of ada_row ada), authChecked := True\<rparr>"

definition administrator :: app_state where
  "administrator =
     initial_state\<lparr>currentUser := Some (session_of root_row root_user), authChecked := True\<rparr>"

text \<open>
  A member whose balance is \<open>2 ^ 53 + 2\<close>, a double: the doubles next to it are
  \<open>2 ^ 53\<close> and \<open>2 ^ 53 + 4\<close>.
\<close>

definition wealthy :: app_state where
  "wealthy =
     initial_state
       \<lparr>currentUser := Some (session_of (ada_row\<lparr>row_points := Fin 9007199254740994\<rparr>) ada),
        authChecked := True\<rparr>"

definition ok :: "'a response" where
  "ok = \<lparr>data = None, error = None\<rparr>"

definition ok_with :: "'a \<Rightarrow> 'a response" where
  "ok_with d = \<lparr>data = Some d, error = None\<rparr>"

definition failed :: "'a response" where
  "failed = \<lparr>data = None, error = Some (PostgrestError ''08006'' ''connection failure'')\<rparr>"

text \<open>The response of \<open>.single()\<close> when no row matches.\<close>

definition no_row :: "'a response" where
  "no_row =
     \<lparr>data = None,
      error = Some (PostgrestError ''PGRST116'' ''the result contains 0 rows'')\<rparr>"

text \<open>The response to an insert that hit the primary key of an existing row.\<close>

definition conflict :: "'a response" where
  "conflict =
     \<lparr>data = None,
      error = Some (PostgrestError ''23505''
                ''duplicate key value violates unique constraint'')\<rparr>"

definition hello :: ChatMessage where
  "hello =
     \<lparr>msg_id = Some ''m1'', role = user, content = ''hi'',
      created_at = Some ''2024-01-01T00:00:00Z'', user_id = Some ''u-ada''\<rparr>"

section \<open>Properties\<close>

subsection \<open>Case-insensitive matching\<close>

lemma of_char_toLowerChar:
  "(of_char (toLowerChar c) :: nat) =
     (if 65 \<le> (of_char c :: nat) \<and> (of_char c :: nat) \<le> 90 then of_char c + 32
      else of_char c)"
  by (simp add: toLowerChar_def)

lemma toLowerChar_eq_iff:
  "toLowerChar a = toLowerChar b
     \<longleftrightarrow> (of_char (toLowerChar a) :: nat) = of_char (toLowerChar b)"
  by simp

lemma same_letter_iff: "same_letter a b \<longleftrightarrow> toLowerChar a = toLowerChar b"
proof -
  have "a = b \<longleftrightarrow> (of_char a :: nat) = of_char b"
    by simp
  then show ?thesis
    unfolding toLowerChar_eq_iff of_char_toLowerChar same_letter_def is_upper_def
    by auto
qed

lemma ci_equal_iff: "ci_equal s t \<longleftrightarrow> toLowerCase s = toLowerCase t"
  unfolding ci_equal_def toLowerCase_def
  by (induction s arbitrary: t) (auto simp: same_letter_iff list_all2_Cons1)

lemma empty_not_admin: "[] \<notin> set ADMIN_EMAILS"
  by (simp add: ADMIN_EMAILS_def admin_literals_def toLowerCase_def)

lemma isAdmin_iff: "isAdmin u = on_allow_list (su_email u)"
proof (cases "su_email u")
  case None
  then show ?thesis
    using empty_not_admin by (simp add: isAdmin_def on_allow_list_def or_else_def)
next
  case (Some e)
  have "or_else (Some (toLowerCase e)) [] = toLowerCase e"
    by (simp add: or_else_def)
  moreover have "toLowerCase e \<in> set ADMIN_EMAILS \<longleftrightarrow> list_ex (ci_equal e) admin_literals"
    by (auto simp: ADMIN_EMAILS_def list_ex_iff ci_equal_iff)
  ultimately show ?thesis
    using Some by (simp add: isAdmin_def on_allow_list_def)
qed

subsection \<open>The transcript holds one entry per id\<close>

lemma insert_message_present:
  "list_ex (\<lambda>msg. msg_id msg = msg_id m) prev \<Longrightarrow> insert_message m prev = prev"
  by (auto simp: insert_message_def list_ex_iff find_None_iff split: option.splits)

lemma insert_message_absent:
  "\<not> list_ex (\<lambda>msg. msg_id msg = msg_id m) prev \<Longrightarrow> insert_message m prev = prev @ [m]"
  by (auto simp: insert_message_def list_ex_iff find_None_iff split: option.splits)

lemma insert_message_twice: "insert_message m (insert_message m prev) = insert_message m prev"
proof (cases "list_ex (\<lambda>msg. msg_id msg = msg_id m) prev")
  case True
  then show ?thesis by (simp add: insert_message_present)
next
  case False
  then have "insert_message m prev = prev @ [m]"
    by (rule insert_message_absent)
  moreover have "list_ex (\<lambda>msg. msg_id msg = msg_id m) (prev @ [m])"
    by (simp add: list_ex_iff)
  ultimately show ?thesis by (simp add: insert_message_present)
qed

lemma copies_absent: "\<not> list_ex (\<lambda>msg. msg_id msg = i) ms \<Longrightarrow> copies i ms = 0"
  by (auto simp: copies_def list_ex_iff filter_empty_conv)

lemma copies_present: "list_ex (\<lambda>msg. msg_id msg = i) ms \<Longrightarrow> 0 < copies i ms"
  by (auto simp: copies_def list_ex_iff filter_empty_conv)

lemma copies_insert_message:
  "copies (msg_id m) prev \<le> 1 \<Longrightarrow> copies (msg_id m) (insert_message m prev) = 1"
proof (cases "list_ex (\<lambda>msg. msg_id msg = msg_id m) prev")
  case True
  assume "copies (msg_id m) prev \<le> 1"
  with copies_present [OF True] show ?thesis
    using True by (simp add: insert_message_present)
next
  case False
  then show ?thesis
    using copies_absent [OF False] by (simp add: insert_message_absent) (simp add: copies_def)
qed

lemma distinct_copies: "distinct (map msg_id ms) \<Longrightarrow> copies i ms \<le> 1"
proof (induction ms)
  case Nil
  then show ?case by (simp add: copies_def)
next
  case (Cons a ms)
  show ?case
  proof (cases "msg_id a = i")
    case True
    from Cons.prems have "msg_id a \<notin> msg_id ` set ms"
      by simp
    with True have "\<not> list_ex (\<lambda>msg. msg_id msg = i) ms"
      unfolding list_ex_iff by (metis imageI)
    then have "copies i ms = 0"
      by (rule copies_absent)
    with True show ?thesis by (simp add: copies_def)
  next
    case False
    with Cons show ?thesis by (simp add: copies_def)
  qed
qed

lemma update_message_ids: "map msg_id (update_message m prev) = map msg_id prev"
  by (simp add: update_message_def)

lemma handleRealtimeUpdate_distinct:
  assumes "distinct (map msg_id (chatHistory st))"
  shows "distinct (map msg_id (chatHistory (handleRealtimeUpdate p st)))"
proof (cases "eventType p")
  case INSERT
  show ?thesis
  proof (cases "list_ex (\<lambda>msg. msg_id msg = msg_id (new p)) (chatHistory st)")
    case True
    with INSERT assms show ?thesis
      by (simp add: handleRealtimeUpdate_def insert_message_present)
  next
    case False
    with INSERT assms show ?thesis
      by (auto simp: handleRealtimeUpdate_def insert_message_absent list_ex_iff)
  qed
next
  case UPDATE
  with assms show ?thesis
    by (simp add: handleRealtimeUpdate_def update_message_ids)
next
  case DELETE
  with assms show ?thesis
    by (simp add: handleRealtimeUpdate_def)
qed

subsection \<open>The back-fill, key by key\<close>

lemma updatedAiInfo_key: "updatedAiInfo stored k = backfilled stored k"
  by (simp add: updatedAiInfo_def backfilled_def map_add_def split: option.splits)

lemma complete_key:
  assumes "\<not> needsUpdate stored"
  shows "stored k = backfilled stored k"
proof -
  from assms obtain n l i g where
    "stored ''Name'' = Some n" "stored ''Location'' = Some l"
    "stored ''Interests'' = Some i" "stored ''language'' = Some g" "g \<noteq> []"
    by (auto simp: needsUpdate_def falsy_def split: option.splits)
  then show ?thesis
    by (auto simp: backfilled_def or_else_def defaultProfileInfo_def split: option.splits)
qed

subsection \<open>Arithmetic on safe integers is exact\<close>

lemma ulp_small: "m < 2 ^ 53 \<Longrightarrow> ulp m = 1"
  by (subst ulp.simps) simp

lemma ulp_step: "2 ^ 53 \<le> m \<Longrightarrow> ulp m = 2 * ulp (m div 2)"
  by (subst ulp.simps) simp

lemma fl_safe:
  assumes "isSafeInteger x"
  shows "fl x = Fin x"
proof -
  from assms have "nat \<bar>x\<bar> < 2 ^ 53"
    by (simp add: isSafeInteger_def)
  then have "ulp (nat \<bar>x\<bar>) = 1"
    by (rule ulp_small)
  moreover from assms have "x < 2 ^ 1024" and "- (2 ^ 1024) < x"
    by (simp_all add: isSafeInteger_def)
  ultimately show ?thesis
    by (simp add: fl_def nearest_even_def)
qed

lemma js_sub_safe: "isSafeInteger (p - a) \<Longrightarrow> js_sub (Fin p) (Fin a) = Fin (p - a)"
  by (simp add: js_sub_def fl_safe)

lemma js_le_not_lt: "js_le a p \<Longrightarrow> \<not> js_lt p a"
  by (cases a; cases p) simp_all

subsection \<open>The points ledger\<close>

lemmas ex_defs = member_def administrator_def wealthy_def session_of_def ada_row_def
  root_row_def ada_def root_user_def ok_def failed_def initial_state_def

lemmas round_defs = js_sub_def fl_def nearest_even_def ulp_small ulp_step

text \<open>
  C1, as the code has it. In a session that is not an administrator's,
  \<open>deductPoints amount\<close> with \<open>amount <= points\<close> and a remote update that reports no
  error returns \<open>true\<close>, leaves the session with a new points value \<open>n\<close> and nothing else
  changed, and the one request it issued writes that same \<open>n\<close> to the row of the
  session's id. That \<open>n\<close> is exactly \<open>points - amount\<close> when points, amount and their
  difference are safe integers.
\<close>

theorem deductPoints_debits:
  assumes "currentUser st = Some cu" and "\<not> is_admin cu" and "js_le amount (points cu)"
    and "error resp = None"
  shows "\<exists>n. returned (deductPoints amount resp st) = True
       \<and> state (deductPoints amount resp st) = st\<lparr>currentUser := Some (cu\<lparr>points := n\<rparr>)\<rparr>
       \<and> requests (deductPoints amount resp st) = [Update (uid cu) (Points n) False]
       \<and> (\<forall>p a. points cu = Fin p \<and> amount = Fin a \<and> isSafeInteger p \<and> isSafeInteger a
                 \<and> isSafeInteger (p - a) \<longrightarrow> n = Fin (p - a))"
proof -
  from assms(3) have "\<not> js_lt (points cu) amount"
    by (rule js_le_not_lt)
  with assms(1,2,4) show ?thesis
    by (intro exI [of _ "js_sub (points cu) amount"])
      (auto simp: deductPoints_def Let_def js_sub_safe)
qed

theorem deductPoints_debits_witness:
  "currentUser member = Some (session_of ada_row ada)
   \<and> \<not> is_admin (session_of ada_row ada)
   \<and> js_le (Fin 50) (points (session_of ada_row ada))
   \<and> error (ok :: unit response) = None
   \<and> isSafeInteger 200 \<and> isSafeInteger 50 \<and> isSafeInteger (200 - 50)
   \<and> returned (deductPoints (Fin 50) ok member) = True
   \<and> map_option points (currentUser (state (deductPoints (Fin 50) ok member)))
       = Some (Fin 150)
   \<and> requests (deductPoints (Fin 50) ok member) = [Update ''u-ada'' (Points (Fin 150)) False]"
proof -
  have safe: "isSafeInteger 200" "isSafeInteger 50" "isSafeInteger (200 - 50)"
    by (simp_all add: isSafeInteger_def)
  from deductPoints_debits [of member "session_of ada_row ada" "Fin 50" ok]
  obtain n where "returned (deductPoints (Fin 50) ok member) = True"
    and "state (deductPoints (Fin 50) ok member)
           = member\<lparr>currentUser := Some ((session_of ada_row ada)\<lparr>points := n\<rparr>)\<rparr>"
    and "requests (deductPoints (Fin 50) ok member)
           = [Update (uid (session_of ada_row ada)) (Points n) False]"
    and "\<forall>p a. points (session_of ada_row ada) = Fin p \<and> Fin 50 = Fin a \<and> isSafeInteger p
            \<and> isSafeInteger a \<and> isSafeInteger (p - a) \<longrightarrow> n = Fin (p - a)"
    by (auto simp: ex_defs)
  moreover from this(4) safe have "n = Fin 150"
    by (simp add: ex_defs)
  ultimately show ?thesis
    using safe by (simp add: ex_defs)
qed

text \<open>
  C1, as stated, fails. The member holds \<open>2 ^ 53 + 2\<close> points and is debited \<open>1\<close>: the
  difference \<open>2 ^ 53 + 1\<close> is no double and rounds to \<open>2 ^ 53\<close>, which is the value kept
  and written, so the points went down by \<open>2\<close>.
\<close>

theorem debit_rounds_beyond_safe_range:
  "fl 9007199254740994 = Fin 9007199254740994
   \<and> js_le (Fin 1) (Fin 9007199254740994)
   \<and> map_option is_admin (currentUser wealthy) = Some False
   \<and> map_option points (currentUser wealthy) = Some (Fin 9007199254740994)
   \<and> returned (deductPoints (Fin 1) ok wealthy) = True
   \<and> map_option points (currentUser (state (deductPoints (Fin 1) ok wealthy)))
       = Some (Fin 9007199254740992)
   \<and> requests (deductPoints (Fin 1) ok wealthy)
       = [Update ''u-ada'' (Points (Fin 9007199254740992)) False]
   \<and> (9007199254740994 :: int) - 1 \<noteq> 9007199254740992"
  by (simp add: deductPoints_def Let_def ex_defs round_defs)

text \<open>
  C2, as the code has it. In a session that is not an administrator's, when
  \<open>amount <= points\<close> and the remote update reports an error, \<open>deductPoints\<close> returns
  \<open>false\<close> and the session's user differs from the one before the call in its points at
  most. When points, amount and their difference are safe integers the points are the
  ones from before the call too: the optimistic decrement is undone.
\<close>

theorem deductPoints_rollback:
  assumes "currentUser st = Some cu" and "\<not> is_admin cu" and "js_le amount (points cu)"
    and "error resp = Some e"
  shows "\<exists>n. returned (deductPoints amount resp st) = False
       \<and> currentUser (state (deductPoints amount resp st)) = Some (cu\<lparr>points := n\<rparr>)
       \<and> (\<forall>p a. points cu = Fin p \<and> amount = Fin a \<and> isSafeInteger p \<and> isSafeInteger a
                 \<and> isSafeInteger (p - a) \<longrightarrow> n = points cu)"
proof -
  from assms(3) have "\<not> js_lt (points cu) amount"
    by (rule js_le_not_lt)
  with assms(1,2,4) show ?thesis
    by (intro exI [of _ "js_add (js_sub (points cu) amount) amount"])
      (auto simp: deductPoints_def Let_def refund_def console_error_def js_sub_safe
        fl_safe)
qed

theorem deductPoints_rollback_witness:
  "currentUser member = Some (session_of ada_row ada)
   \<and> \<not> is_admin (session_of ada_row ada)
   \<and> js_le (Fin 50) (points (session_of ada_row ada))
   \<and> error (failed :: unit response) = Some (PostgrestError ''08006'' ''connection failure'')
   \<and> isSafeInteger 200 \<and> isSafeInteger 50 \<and> isSafeInteger (200 - 50)
   \<and> returned (deductPoints (Fin 50) failed member) = False
   \<and> currentUser (state (deductPoints (Fin 50) failed member)) = currentUser member"
proof -
  have safe: "isSafeInteger 200" "isSafeInteger 50" "isSafeInteger (200 - 50)"
    by (simp_all add: isSafeInteger_def)
  from deductPoints_rollback [of member "session_of ada_row ada" "Fin 50" failed
      "PostgrestError ''08006'' ''connection failure''"]
  obtain n where "returned (deductPoints (Fin 50) failed member) = False"
    and "currentUser (state (deductPoints (Fin 50) failed member))
           = Some ((session_of ada_row ada)\<lparr>points := n\<rparr>)"
    and "\<forall>p a. points (session_of ada_row ada) = Fin p \<and> Fin 50 = Fin a \<and> isSafeInteger p
            \<and> isSafeInteger a \<and> isSafeInteger (p - a) \<longrightarrow> n = points (session_of ada_row ada)"
    by (auto simp: ex_defs)
  moreover from this(3) safe have "n = Fin 200"
    by (simp add: ex_defs)
  ultimately show ?thesis
    using safe by (simp add: ex_defs)
qed

text \<open>
  C2, as stated, fails. The member holds \<open>2 ^ 53 + 2\<close> points, is debited \<open>1\<close> and the
  update reports an error: the decrement left \<open>2 ^ 53\<close>, and \<open>2 ^ 53 + 1\<close> rounds to
  \<open>2 ^ 53\<close> again, so the rollback leaves \<open>2 ^ 53\<close> and not the points from before the
  call.
\<close>

theorem rollback_rounds_beyond_safe_range:
  "fl 9007199254740994 = Fin 9007199254740994
   \<and> js_le (Fin 1) (Fin 9007199254740994)
   \<and> map_option is_admin (currentUser wealthy) = Some False
   \<and> map_option points (currentUser wealthy) = Some (Fin 9007199254740994)
   \<and> returned (deductPoints (Fin 1) failed wealthy) = False
   \<and> map_option points (currentUser (state (deductPoints (Fin 1) failed wealthy)))
       = Some (Fin 9007199254740992)"
  by (simp add: deductPoints_def Let_def refund_def console_error_def ex_defs round_defs)

text \<open>
  C6. In a session that is not an administrator's, \<open>deductPoints amount\<close> with
  \<open>amount > points\<close> returns \<open>false\<close>, leaves the session's user unchanged and issues no
  remote request, whatever the remote would have answered.
\<close>

theorem deductPoints_insufficient:
  assumes "currentUser st = Some cu" and "\<not> is_admin cu" and "js_lt (points cu) amount"
  shows "returned (deductPoints amount resp st) = False
       \<and> currentUser (state (deductPoints amount resp st)) = Some cu
       \<and> requests (deductPoints amount resp st) = []"
  using assms by (simp add: deductPoints_def)

theorem deductPoints_insufficient_witness:
  "currentUser member = Some (session_of ada_row ada)
   \<and> \<not> is_admin (session_of ada_row ada)
   \<and> js_lt (points (session_of ada_row ada)) (Fin 250)
   \<and> returned (deductPoints (Fin 250) ok member) = False
   \<and> map_option points (currentUser (state (deductPoints (Fin 250) ok member)))
       = Some (Fin 200)
   \<and> requests (deductPoints (Fin 250) ok member) = []"
  using deductPoints_insufficient [of member "session_of ada_row ada" "Fin 250" ok]
  by (simp add: ex_defs)

text \<open>
  C7. In an administrator's session \<open>deductPoints\<close> returns \<open>true\<close> for every amount,
  leaves the whole state unchanged and issues no remote request.
\<close>

theorem deductPoints_admin:
  assumes "currentUser st = Some cu" and "is_admin cu"
  shows "returned (deductPoints amount resp st) = True
       \<and> state (deductPoints amount resp st) = st
       \<and> requests (deductPoints amount resp st) = []"
  using assms by (simp add: deductPoints_def)

theorem deductPoints_admin_witness:
  "currentUser administrator = Some (session_of root_row root_user)
   \<and> is_admin (session_of root_row root_user)
   \<and> returned (deductPoints (Fin 1000000) failed administrator) = True
   \<and> state (deductPoints (Fin 1000000) failed administrator) = administrator
   \<and> requests (deductPoints (Fin 1000000) failed administrator) = []"
  using deductPoints_admin
      [of administrator "session_of root_row root_user" "Fin 1000000" failed]
  by (simp add: ex_defs)

subsection \<open>The realtime merge\<close>

text \<open>
  C4. An INSERT event whose id is already in the local sequence is discarded, otherwise
  its row is appended at the end; delivering the same event a second time changes
  nothing; and when the sequence held at most one message of that id before (none, or the
  one a local append placed there), it holds exactly one after the two deliveries. The
  sequences the handler produces from a sequence with one entry per id have one entry per
  id again (\<open>handleRealtimeUpdate_distinct\<close>, \<open>distinct_copies\<close>).
\<close>

theorem insert_event_once:
  assumes "eventType p = INSERT"
  shows "chatHistory (handleRealtimeUpdate p st) =
           (if list_ex (\<lambda>msg. msg_id msg = msg_id (new p)) (chatHistory st)
            then chatHistory st else chatHistory st @ [new p])
       \<and> handleRealtimeUpdate p (handleRealtimeUpdate p st) = handleRealtimeUpdate p st
       \<and> (copies (msg_id (new p)) (chatHistory st) \<le> 1 \<longrightarrow>
            copies (msg_id (new p))
              (chatHistory (handleRealtimeUpdate p (handleRealtimeUpdate p st))) = 1)"
proof -
  have once: "chatHistory (handleRealtimeUpdate p st) = insert_message (new p) (chatHistory st)"
    using assms by (simp add: handleRealtimeUpdate_def)
  have twice: "handleRealtimeUpdate p (handleRealtimeUpdate p st) = handleRealtimeUpdate p st"
    using assms by (simp add: handleRealtimeUpdate_def insert_message_twice)
  have "chatHistory (handleRealtimeUpdate p st) =
           (if list_ex (\<lambda>msg. msg_id msg = msg_id (new p)) (chatHistory st)
            then chatHistory st else chatHistory st @ [new p])"
    unfolding once by (simp add: insert_message_present insert_message_absent)
  moreover have "copies (msg_id (new p)) (chatHistory st) \<le> 1 \<longrightarrow>
            copies (msg_id (new p))
              (chatHistory (handleRealtimeUpdate p (handleRealtimeUpdate p st))) = 1"
    unfolding twice once by (simp add: copies_insert_message)
  ultimately show ?thesis
    using twice by simp
qed

theorem insert_event_once_witness:
  "eventType \<lparr>eventType = INSERT, new = hello\<rparr> = INSERT
   \<and> copies (Some ''m1'') (chatHistory initial_state) \<le> 1
   \<and> chatHistory (handleRealtimeUpdate \<lparr>eventType = INSERT, new = hello\<rparr> initial_state)
       = [hello]
   \<and> copies (Some ''m1'')
       (chatHistory (handleRealtimeUpdate \<lparr>eventType = INSERT, new = hello\<rparr>
          (handleRealtimeUpdate \<lparr>eventType = INSERT, new = hello\<rparr> initial_state))) = 1"
  using insert_event_once [of "\<lparr>eventType = INSERT, new = hello\<rparr>" initial_state]
  by (simp add: initial_state_def hello_def copies_def)

subsection \<open>The checkout credit\<close>

text \<open>
  C10. When the update issued by \<open>handleCheckoutSuccess\<close> reports an error, the session's
  user, tier and points included, is the one from before the call; when it reports none and
  returns a row, tier and points are taken from that row.
\<close>

theorem credit_failure_keeps_session:
  "(error resp = Some e \<longrightarrow>
      (\<exists>r. handleCheckoutSuccess t pts resp st = Inr r
           \<and> currentUser (state r) = currentUser st))
   \<and> (error resp = None \<and> data resp = Some row \<and> currentUser st = Some cu \<longrightarrow>
      (\<exists>r. handleCheckoutSuccess t pts resp st = Inr r
           \<and> currentUser (state r)
               = Some (cu\<lparr>tier := row_tier row, points := row_points row\<rparr>)))"
  by (simp add: handleCheckoutSuccess_def Let_def console_error_def credit_confirmed_def
      split: option.splits)

theorem credit_failure_keeps_session_witness:
  "error (failed :: profile_row response) = Some (PostgrestError ''08006'' ''connection failure'')
   \<and> (\<exists>r. handleCheckoutSuccess Premium (Fin 1000) failed member = Inr r
          \<and> map_option tier (currentUser (state r)) = Some Basic
          \<and> map_option points (currentUser (state r)) = Some (Fin 200))
   \<and> error (ok_with (ada_row\<lparr>row_tier := Premium, row_points := Fin 1200\<rparr>)) = None
   \<and> (\<exists>r. handleCheckoutSuccess Premium (Fin 1000)
             (ok_with (ada_row\<lparr>row_tier := Premium, row_points := Fin 1200\<rparr>)) member = Inr r
          \<and> map_option tier (currentUser (state r)) = Some Premium
          \<and> map_option points (currentUser (state r)) = Some (Fin 1200))"
  using credit_failure_keeps_session [of failed "PostgrestError ''08006'' ''connection failure''"
      Premium "Fin 1000" member]
    credit_failure_keeps_session [of "ok_with (ada_row\<lparr>row_tier := Premium, row_points := Fin 1200\<rparr>)"
      _ Premium "Fin 1000" member "ada_row\<lparr>row_tier := Premium, row_points := Fin 1200\<rparr>"
      "session_of ada_row ada"]
  by (auto simp add: ex_defs ok_with_def)

subsection \<open>Merge-patch of personalization, language and basket\<close>

text \<open>
  C9. When the remote update reports an error, \<open>updateAiProfileInfo\<close>,
  \<open>updateLanguage\<close>, \<open>addToBasket\<close> and \<open>removeFromBasket\<close> leave the session's user,
  and so the field they would have replaced, exactly as it was before the call.
\<close>

theorem merge_patch_failure_keeps_session:
  assumes "error resp = Some e" and "error resp' = Some e'"
  shows "(\<exists>r. updateAiProfileInfo updatedProfile resp st = Inr r
              \<and> currentUser (state r) = currentUser st)
       \<and> (\<exists>r. updateLanguage newLanguage resp st = Inr r
              \<and> currentUser (state r) = currentUser st)
       \<and> currentUser (state (addToBasket c resp' st)) = currentUser st
       \<and> currentUser (state (removeFromBasket index resp' st)) = currentUser st"
  using assms
  by (simp add: updateAiProfileInfo_def updateLanguage_def addToBasket_def
      removeFromBasket_def confirm_info_def Let_def console_error_def split: option.splits)

theorem merge_patch_failure_keeps_session_witness:
  "error (failed :: profile_row response) = Some (PostgrestError ''08006'' ''connection failure'')
   \<and> error (failed :: unit response) = Some (PostgrestError ''08006'' ''connection failure'')
   \<and> (\<exists>r. updateAiProfileInfo [''Name'' \<mapsto> ''Ada''] failed member = Inr r
          \<and> currentUser (state r) = currentUser member)
   \<and> (\<exists>r. updateLanguage ''French'' failed member = Inr r
          \<and> map_option language (currentUser (state r)) = Some ''English'')
   \<and> map_option basket_items (currentUser (state (addToBasket ''milk'' failed member)))
        = Some [''tea'']
   \<and> map_option basket_items (currentUser (state (removeFromBasket (Fin 0) failed member)))
        = Some [''tea'']"
  using merge_patch_failure_keeps_session
      [of failed "PostgrestError ''08006'' ''connection failure''"
        failed "PostgrestError ''08006'' ''connection failure''" "[''Name'' \<mapsto> ''Ada'']"
        member "''French''" "''milk''" "Fin 0"]
  by (auto simp add: ex_defs initialProfileInfo_def defaultProfileInfo_def or_else_def)

subsection \<open>Hydration\<close>

text \<open>
  C8. When the select finds no row, the profile the hydration constructs and inserts has
  \<open>is_admin\<close> true exactly when the identity has an e-mail that matches an entry of the
  administrator allow-list case-insensitively, tier \<open>Admin\<close> in that case and \<open>Free\<close>
  otherwise, and 5000 points in both.
\<close>

theorem new_profile_admin_by_allow_list:
  assumes "data sel = None"
  shows "\<exists>np. requests (fetchAndHydrateProfile (Some u) sel upd ins consent st)
               = [Select (su_id u), Insert np]
          \<and> row_is_admin np = on_allow_list (su_email u)
          \<and> row_tier np = (if on_allow_list (su_email u) then Admin else Free)
          \<and> row_points np = Fin 5000"
  using assms
  by (auto simp add: fetchAndHydrateProfile_def hydrate_missing_def finally_consent_def
      newUserProfile_def isAdmin_iff Let_def split: option.splits)

theorem new_profile_admin_by_allow_list_witness:
  "data (no_row :: profile_row response) = None
   \<and> on_allow_list (su_email root_user)
   \<and> \<not> on_allow_list (su_email ada)
   \<and> (\<exists>np. requests (fetchAndHydrateProfile (Some root_user) no_row ok (ok_with root_row) None
                 initial_state) = [Select ''u-root'', Insert np]
          \<and> row_is_admin np \<and> row_tier np = Admin \<and> row_points np = Fin 5000)"
  using new_profile_admin_by_allow_list
      [of no_row root_user ok "ok_with root_row" None initial_state]
  by (simp add: no_row_def root_user_def ada_def on_allow_list_def admin_literals_def
      ci_equal_def same_letter_def is_upper_def)

text \<open>
  C3, as the code has it. When the select finds no row and the insert reports an error,
  a uniqueness conflict or any other, the hydration has issued the select and the insert
  and nothing after them, the error is logged, and the session's user is the one from
  before the call.
\<close>

theorem insert_error_leaves_session:
  assumes "data sel = None" and "error ins = Some e"
  shows "requests (fetchAndHydrateProfile (Some u) sel upd ins consent st)
           = [Select (su_id u), Insert (newUserProfile u)]
       \<and> currentUser (state (fetchAndHydrateProfile (Some u) sel upd ins consent st))
           = currentUser st
       \<and> console (state (fetchAndHydrateProfile (Some u) sel upd ins consent st))
           = console st @ [''Error fetching/hydrating user profile:'']"
  using assms
  by (simp add: fetchAndHydrateProfile_def hydrate_missing_def finally_consent_def
      console_error_def Let_def)

theorem insert_error_leaves_session_witness:
  "data (no_row :: profile_row response) = None
   \<and> error (conflict :: profile_row response)
       = Some (PostgrestError ''23505'' ''duplicate key value violates unique constraint'')
   \<and> requests (fetchAndHydrateProfile (Some ada) no_row ok conflict None provisional)
       = [Select ''u-ada'', Insert (newUserProfile ada)]
   \<and> map_option points
        (currentUser (state (fetchAndHydrateProfile (Some ada) no_row ok conflict None provisional)))
       = Some (Fin 0)"
  using insert_error_leaves_session [of no_row conflict
      "PostgrestError ''23505'' ''duplicate key value violates unique constraint''"
      ada ok None provisional]
  by (simp add: no_row_def conflict_def provisional_def onAuthStateChange_def ada_def
      initial_state_def)

text \<open>
  C3, as stated, fails. The provisional session of \<open>ada\<close> hydrates while another session
  has just inserted her row: the select finds nothing, the insert answers with the
  uniqueness conflict 23505. No second select follows the insert, and the session keeps
  its provisional user (no points, tier Free) instead of the existing row.
\<close>

theorem conflict_not_refetched:
  "requests (fetchAndHydrateProfile (Some ada) no_row ok conflict None provisional)
       = [Select ''u-ada'', Insert (newUserProfile ada)]
   \<and> currentUser (state (fetchAndHydrateProfile (Some ada) no_row ok conflict None provisional))
       = currentUser provisional
   \<and> currentUser (state (fetchAndHydrateProfile (Some ada) no_row ok conflict None provisional))
       \<noteq> Some (session_of (newUserProfile ada) ada)"
  by (simp add: fetchAndHydrateProfile_def hydrate_missing_def finally_consent_def
      console_error_def Let_def no_row_def conflict_def provisional_def onAuthStateChange_def
      ada_def initial_state_def session_of_def newUserProfile_def)

text \<open>
  C5, as the code has it. For a found row with the stored personalization \<open>stored\<close>
  there is one map \<open>w\<close>, given key by key by \<open>backfilled\<close>: a key other than
  \<open>language\<close> keeps its stored value when present, the empty string included, and takes
  its default when missing; \<open>language\<close> keeps a non-empty stored value and is \<open>English\<close>
  when missing or empty. When a required key is missing or empty the hydration writes
  \<open>w\<close> back remotely, otherwise it writes nothing; and the session receives \<open>w\<close>
  whenever the update returned no row or a row that carries \<open>w\<close>.
\<close>

theorem hydration_backfill:
  assumes "data sel = Some profile" and "row_ai_profile_info profile = Some stored"
  shows "\<exists>w. (\<forall>k. w k = backfilled stored k)
     \<and> requests (fetchAndHydrateProfile (Some u) sel upd ins consent st)
         = (if needsUpdate stored
            then [Select (su_id u), Update (su_id u) (AiInfo w) True]
            else [Select (su_id u)])
     \<and> ((needsUpdate stored \<longrightarrow>
           (case data upd of None \<Rightarrow> True
            | Some row \<Rightarrow> row_ai_profile_info row = Some w)) \<longrightarrow>
         map_option ai_profile_info
           (currentUser (state (fetchAndHydrateProfile (Some u) sel upd ins consent st)))
         = Some (Some w))"
proof (cases "needsUpdate stored")
  case True
  have "\<forall>k. updatedAiInfo stored k = backfilled stored k"
    by (simp add: updatedAiInfo_key)
  moreover have "requests (fetchAndHydrateProfile (Some u) sel upd ins consent st)
         = [Select (su_id u), Update (su_id u) (AiInfo (updatedAiInfo stored)) True]"
    using assms True
    by (simp add: fetchAndHydrateProfile_def hydrate_found_def finally_consent_def or_empty_def
        Let_def)
  moreover have "(case data upd of None \<Rightarrow> True
            | Some row \<Rightarrow> row_ai_profile_info row = Some (updatedAiInfo stored)) \<longrightarrow>
         map_option ai_profile_info
           (currentUser (state (fetchAndHydrateProfile (Some u) sel upd ins consent st)))
         = Some (Some (updatedAiInfo stored))"
    using assms True
    by (simp add: fetchAndHydrateProfile_def hydrate_found_def finally_consent_def or_empty_def
        session_of_def Let_def split: option.splits)
  ultimately show ?thesis
    using True by (intro exI [of _ "updatedAiInfo stored"]) simp
next
  case False
  have "\<forall>k. stored k = backfilled stored k"
    using False by (simp add: complete_key)
  moreover have "requests (fetchAndHydrateProfile (Some u) sel upd ins consent st)
         = [Select (su_id u)]"
    using assms False
    by (simp add: fetchAndHydrateProfile_def hydrate_found_def finally_consent_def or_empty_def
        Let_def)
  moreover have "map_option ai_profile_info
           (currentUser (state (fetchAndHydrateProfile (Some u) sel upd ins consent st)))
         = Some (Some stored)"
    using assms False
    by (simp add: fetchAndHydrateProfile_def hydrate_found_def finally_consent_def or_empty_def
        session_of_def Let_def)
  ultimately show ?thesis
    using False by (intro exI [of _ stored]) simp
qed

theorem hydration_backfill_witness:
  "data (ok_with sparse_row) = Some sparse_row
   \<and> row_ai_profile_info sparse_row = Some [''Name'' \<mapsto> ''Ada'']
   \<and> (\<exists>w. w ''Name'' = Some ''Ada'' \<and> w ''Location'' = Some ''the cloud''
          \<and> w ''Interests'' = Some ''learning new things and chatting''
          \<and> w ''language'' = Some ''English''
          \<and> requests (fetchAndHydrateProfile (Some ada) (ok_with sparse_row) ok ok None provisional)
               = [Select ''u-ada'', Update ''u-ada'' (AiInfo w) True]
          \<and> map_option ai_profile_info
               (currentUser (state (fetchAndHydrateProfile (Some ada) (ok_with sparse_row) ok ok
                  None provisional)))
               = Some (Some w))"
proof -
  let ?r = "fetchAndHydrateProfile (Some ada) (ok_with sparse_row) ok ok None provisional"
  have found: "data (ok_with sparse_row) = Some sparse_row"
    by (simp add: ok_with_def)
  have stored: "row_ai_profile_info sparse_row = Some [''Name'' \<mapsto> ''Ada'']"
    by (simp add: sparse_row_def)
  have incomplete: "needsUpdate [''Name'' \<mapsto> ''Ada'']"
    by (simp add: needsUpdate_def falsy_def)
  have no_echo: "data (ok :: profile_row response) = None"
    by (simp add: ok_def)
  from hydration_backfill [OF found stored, of ada ok ok None provisional]
  obtain w where keys: "\<forall>k. w k = backfilled [''Name'' \<mapsto> ''Ada''] k"
    and reqs: "requests ?r = [Select (su_id ada), Update (su_id ada) (AiInfo w) True]"
    and sess: "map_option ai_profile_info (currentUser (state ?r)) = Some (Some w)"
    using incomplete no_echo by auto
  from keys have "w ''Name'' = Some ''Ada''" "w ''Location'' = Some ''the cloud''"
    "w ''Interests'' = Some ''learning new things and chatting''"
    "w ''language'' = Some ''English''"
    by (simp_all add: backfilled_def defaultProfileInfo_def or_else_def)
  with reqs sess found stored show ?thesis
    by (intro conjI exI [of _ w]) (simp_all add: ada_def)
qed

text \<open>
  C5, as stated, fails. The stored map has all four keys, \<open>language\<close> holding the empty
  string: the hydration writes \<open>English\<close> under \<open>language\<close> and the session receives
  it, so a present key did not keep its stored value.
\<close>

theorem blank_language_overwritten:
  "or_empty (row_ai_profile_info blank_language_row) ''language'' = Some []
   \<and> map (written ''language'')
        (requests (fetchAndHydrateProfile (Some ada) (ok_with blank_language_row) ok ok None
           provisional))
       = [None, Some ''English'']
   \<and> personalization
        (state (fetchAndHydrateProfile (Some ada) (ok_with blank_language_row) ok ok None
           provisional)) ''language''
       = Some ''English''"
  by (simp add: fetchAndHydrateProfile_def hydrate_found_def finally_consent_def or_empty_def
      session_of_def Let_def blank_language_row_def ada_row_def ok_with_def ok_def
      initialProfileInfo_def defaultProfileInfo_def needsUpdate_def falsy_def updatedAiInfo_def
      or_else_def personalization_def)

end
